theory Spec2Isabelle
  imports Complex_Main "HOL-Library.Sublist"
begin


section \<open>JavaScript values\<close>

text \<open>
  A value that came out of \<^verbatim>\<open>JSON.parse\<close> (the persisted settings object, a response
  body). A number is the exact value of the parsed double. An object is its list of own
  properties; a \<^verbatim>\<open>undefined\<close> result of a property read is \<open>None\<close> of \<open>json option\<close>.
  A \<open>string\<close> is a JavaScript string whose UTF-16 code units are all below 256, one
  \<open>char\<close> per code unit.
\<close>

datatype json =
    JNull
  | JBool bool
  | JNum rat
  | JStr string
  | JArr "json list"
  | JObj "(string \<times> json) list"

text \<open>JavaScript truthiness of a possibly undefined value.\<close>

fun truthy :: "json option \<Rightarrow> bool" where
  "truthy None = False"
| "truthy (Some JNull) = False"
| "truthy (Some (JBool b)) = b"
| "truthy (Some (JNum n)) = (n \<noteq> 0)"
| "truthy (Some (JStr s)) = (s \<noteq> [])"
| "truthy (Some (JArr xs)) = True"
| "truthy (Some (JObj kvs)) = True"

section \<open>Settings (types.ts)\<close>

record ProviderConfig =
  apiKey :: string
  model :: string

record MusePersona =
  p_id :: string
  p_name :: string
  icon :: string
  tone :: string
  firstPerson :: string
  speechStyle :: string

text \<open>\<^verbatim>\<open>custom\<close> is \<open>None\<close> when the loaded object has no such property.\<close>

record MusePersonaSettings =
  selected :: string
  custom :: "MusePersona option"

text \<open>
  The settings object as \<^verbatim>\<open>migrateSettings\<close> can meet it after
  \<^verbatim>\<open>Object.assign({}, DEFAULT_AI_SETTINGS, data)\<close>: the deprecated flat fields
  \<^verbatim>\<open>apiKey\<close> and \<^verbatim>\<open>model\<close> (here \<open>s_apiKey\<close>, \<open>s_model\<close>) and the untyped
  \<^verbatim>\<open>ollamaModel\<close> may be present or absent, and the code also guards against an absent
  \<^verbatim>\<open>providers\<close> and \<^verbatim>\<open>persona\<close>. The \<^verbatim>\<open>providers\<close> object is read through its own
  properties only (a provider id is not the name of a member of \<^verbatim>\<open>Object.prototype\<close>).
\<close>

record AiSettings =
  enabled :: bool
  provider :: string
  s_apiKey :: "string option"
  s_model :: "string option"
  providers :: "(string \<rightharpoonup> ProviderConfig) option"
  ollamaUrl :: string
  persona :: "MusePersonaSettings option"
  ollamaModel :: "json option"

definition DEFAULT_PERSONA_CUSTOM :: MusePersona where
  "DEFAULT_PERSONA_CUSTOM =
     \<lparr>p_id = ''custom'', p_name = ''Muse'', icon = ''moon'', tone = '''',
      firstPerson = '''', speechStyle = ''''\<rparr>"

definition DEFAULT_PERSONA_SETTINGS :: MusePersonaSettings where
  "DEFAULT_PERSONA_SETTINGS = \<lparr>selected = ''default'', custom = Some DEFAULT_PERSONA_CUSTOM\<rparr>"

definition DEFAULT_AI_SETTINGS :: AiSettings where
  "DEFAULT_AI_SETTINGS =
     \<lparr>enabled = False, provider = ''gemini'', s_apiKey = None, s_model = None,
      providers = Some Map.empty, ollamaUrl = ''http://localhost:11434'',
      persona = Some DEFAULT_PERSONA_SETTINGS, ollamaModel = None\<rparr>"

record ProviderInfo =
  pi_id :: string
  pi_name :: string
  defaultModel :: string
  needsApiKey :: bool

text \<open>
  The display name of the local provider is \<^verbatim>\<open>t.ollamaLocal\<close> of the string tables, which
  are not part of the sources at hand: it is the parameter \<open>ollamaLocal\<close>.
\<close>

definition PROVIDERS :: "string \<Rightarrow> ProviderInfo list" where
  "PROVIDERS ollamaLocal =
     [\<lparr>pi_id = ''gemini'', pi_name = ''Google Gemini'', defaultModel = ''gemini-2.5-flash'',
       needsApiKey = True\<rparr>,
      \<lparr>pi_id = ''openai'', pi_name = ''OpenAI'', defaultModel = ''gpt-4o-mini'',
       needsApiKey = True\<rparr>,
      \<lparr>pi_id = ''anthropic'', pi_name = ''Anthropic'',
       defaultModel = ''claude-sonnet-4-20250514'', needsApiKey = True\<rparr>,
      \<lparr>pi_id = ''ollama'', pi_name = ollamaLocal, defaultModel = ''gemma3:12b'',
       needsApiKey = False\<rparr>]"

text \<open>What a JavaScript operation throws; \<open>message\<close> is the text a handler reads.\<close>

datatype js_error =
    TypeError string
  | SyntaxError string
  | NetworkError string
  | TimeoutError

fun message :: "js_error \<Rightarrow> string" where
  "message (TypeError m) = m"
| "message (SyntaxError m) = m"
| "message (NetworkError m) = m"
| "message TimeoutError = ''Request timed out''"

text \<open>
  \<^verbatim>\<open>s.providers[s.provider]?.apiKey || ""\<close>. Reading a property of an absent
  \<^verbatim>\<open>providers\<close> throws a TypeError.
\<close>

definition getApiKey :: "AiSettings \<Rightarrow> js_error + string" where
  "getApiKey s =
     (case providers s of
        None \<Rightarrow> Inl (TypeError ''Cannot read properties of undefined'')
      | Some ps \<Rightarrow>
          (case ps (provider s) of
             None \<Rightarrow> Inr ''''
           | Some c \<Rightarrow> Inr (if apiKey c \<noteq> [] then apiKey c else '''')))"

definition getModel :: "string \<Rightarrow> AiSettings \<Rightarrow> js_error + string" where
  "getModel ollamaLocal s =
     (let found = find (\<lambda>p. pi_id p = provider s) (PROVIDERS ollamaLocal) in
      case providers s of
        None \<Rightarrow> Inl (TypeError ''Cannot read properties of undefined'')
      | Some ps \<Rightarrow>
          (let stored = (case ps (provider s) of None \<Rightarrow> [] | Some c \<Rightarrow> model c) in
           if stored \<noteq> [] then Inr stored
           else (case found of
                   None \<Rightarrow> Inr ''''
                 | Some p \<Rightarrow> Inr (if defaultModel p \<noteq> [] then defaultModel p else ''''))))"

subsection \<open>migrateSettings\<close>

text \<open>
  The function mutates its argument in place and returns it; the model returns the
  updated record. Each definition below is one statement group of the source, in order.
\<close>

definition ensure_providers :: "AiSettings \<Rightarrow> (string \<rightharpoonup> ProviderConfig)" where
  "ensure_providers s = (case providers s of None \<Rightarrow> Map.empty | Some ps \<Rightarrow> ps)"

definition ensure_slot :: "(string \<rightharpoonup> ProviderConfig) \<Rightarrow> string \<Rightarrow> ProviderConfig" where
  "ensure_slot ps k = (case ps k of None \<Rightarrow> \<lparr>apiKey = '''', model = ''''\<rparr> | Some c \<Rightarrow> c)"

definition slot_apiKey :: "(string \<rightharpoonup> ProviderConfig) \<Rightarrow> string \<Rightarrow> string" where
  "slot_apiKey ps k = (case ps k of None \<Rightarrow> [] | Some c \<Rightarrow> apiKey c)"

definition slot_model :: "(string \<rightharpoonup> ProviderConfig) \<Rightarrow> string \<Rightarrow> string" where
  "slot_model ps k = (case ps k of None \<Rightarrow> [] | Some c \<Rightarrow> model c)"

definition migrate_apiKey :: "AiSettings \<Rightarrow> (string \<rightharpoonup> ProviderConfig) \<Rightarrow> (string \<rightharpoonup> ProviderConfig)" where
  "migrate_apiKey s ps =
     (case s_apiKey s of
        None \<Rightarrow> ps
      | Some k \<Rightarrow>
          if k \<noteq> [] \<and> slot_apiKey ps (provider s) = []
          then ps(provider s \<mapsto> (ensure_slot ps (provider s))\<lparr>apiKey := k\<rparr>)
          else ps)"

definition migrate_model :: "AiSettings \<Rightarrow> (string \<rightharpoonup> ProviderConfig) \<Rightarrow> (string \<rightharpoonup> ProviderConfig)" where
  "migrate_model s ps =
     (case s_model s of
        None \<Rightarrow> ps
      | Some m \<Rightarrow>
          if m \<noteq> [] \<and> slot_model ps (provider s) = []
          then ps(provider s \<mapsto> (ensure_slot ps (provider s))\<lparr>model := m\<rparr>)
          else ps)"

text \<open>
  \<^verbatim>\<open>old.ollamaModel && typeof old.ollamaModel === "string"\<close> holds for a non-empty string
  only; the property is deleted inside that branch only.
\<close>

definition migrate_ollama ::
  "json option \<Rightarrow> (string \<rightharpoonup> ProviderConfig) \<Rightarrow> (string \<rightharpoonup> ProviderConfig) \<times> json option" where
  "migrate_ollama om ps =
     (case om of
        Some (JStr m) \<Rightarrow>
          if m \<noteq> [] then
            (let c = ensure_slot ps ''ollama'' in
             (ps(''ollama'' \<mapsto> (if model c = [] then c\<lparr>model := m\<rparr> else c)), None))
          else (ps, om)
      | _ \<Rightarrow> (ps, om))"

definition migrate_persona :: "MusePersonaSettings option \<Rightarrow> MusePersonaSettings" where
  "migrate_persona po =
     (let p = (case po of None \<Rightarrow> DEFAULT_PERSONA_SETTINGS | Some p \<Rightarrow> p) in
      case custom p of
        None \<Rightarrow> p\<lparr>custom := Some DEFAULT_PERSONA_CUSTOM\<rparr>
      | Some c \<Rightarrow> p)"

definition migrateSettings :: "AiSettings \<Rightarrow> AiSettings" where
  "migrateSettings s =
     (let ps0 = ensure_providers s;
          ps1 = migrate_apiKey s ps0;
          ps2 = migrate_model s ps1;
          (ps3, om) = migrate_ollama (ollamaModel s) ps2
      in s\<lparr>providers := Some ps3,
            ollamaModel := om,
            persona := Some (migrate_persona (persona s)),
            s_apiKey := None,
            s_model := None\<rparr>)"

subsection \<open>isConfigured (main.ts)\<close>

definition isConfigured :: "string \<Rightarrow> AiSettings \<Rightarrow> js_error + bool" where
  "isConfigured ollamaLocal s =
     (if \<not> enabled s then Inr False
      else case find (\<lambda>p. pi_id p = provider s) (PROVIDERS ollamaLocal) of
             None \<Rightarrow> Inr False
           | Some p \<Rightarrow>
               if needsApiKey p
               then (case getApiKey s of
                       Inl e \<Rightarrow> Inl e
                     | Inr k \<Rightarrow> if k = [] then Inr False else Inr True)
               else Inr True)"

subsection \<open>Ollama model diagnostics\<close>

text \<open>
  The rating marks are not ASCII: a \<open>rating\<close> is the list of the UTF-16 code units of
  the source's string (U+25CE, U+25CB, U+25B3, and 63 for the question mark).
\<close>

record JapaneseRating =
  rating :: "nat list"
  recommended :: bool

definition JAPANESE_RATINGS :: "(string \<times> JapaneseRating) list" where
  "JAPANESE_RATINGS =
     [(''qwen3'', \<lparr>rating = [0x25CE], recommended = True\<rparr>),
      (''qwen2.5'', \<lparr>rating = [0x25CE], recommended = True\<rparr>),
      (''qwen2'', \<lparr>rating = [0x25CE], recommended = True\<rparr>),
      (''gemma3'', \<lparr>rating = [0x25CB], recommended = False\<rparr>),
      (''gemma2'', \<lparr>rating = [0x25CB], recommended = False\<rparr>),
      (''command-r'', \<lparr>rating = [0x25CB], recommended = False\<rparr>),
      (''llama3'', \<lparr>rating = [0x25B3], recommended = False\<rparr>),
      (''llama3.1'', \<lparr>rating = [0x25B3], recommended = False\<rparr>),
      (''llama3.2'', \<lparr>rating = [0x25B3], recommended = False\<rparr>),
      (''phi-3'', \<lparr>rating = [0x25B3], recommended = False\<rparr>),
      (''phi-4'', \<lparr>rating = [0x25B3], recommended = False\<rparr>),
      (''mistral'', \<lparr>rating = [0x25B3], recommended = False\<rparr>)]"

text \<open>
  \<^verbatim>\<open>Object.keys(JAPANESE_RATINGS).sort((a, b) => b.length - a.length)\<close>: the keys in
  insertion order, sorted stably by descending length.
\<close>

definition families :: "string list" where
  "families = map fst JAPANESE_RATINGS"

definition sorted_families :: "string list" where
  "sorted_families = sort_key (\<lambda>a. - int (length a)) families"

text \<open>The loop: the first family of the sorted list that the name starts with.\<close>

definition findFamily :: "string \<Rightarrow> string option" where
  "findFamily modelName = find (\<lambda>family. prefix family modelName) sorted_families"

text \<open>
  The result is \<open>None\<close> where \<^verbatim>\<open>JAPANESE_RATINGS[family]\<close> would be
  \<^verbatim>\<open>undefined\<close>.
\<close>

definition getJapaneseRating :: "string \<Rightarrow> JapaneseRating option" where
  "getJapaneseRating modelName =
     (case findFamily modelName of
        Some family \<Rightarrow> map_of JAPANESE_RATINGS family
      | None \<Rightarrow> Some \<lparr>rating = [63], recommended = False\<rparr>)"

section \<open>Error redaction (ai-client.ts)\<close>

subsection \<open>Character classes of the regular expressions\<close>

text \<open>
  \<^verbatim>\<open>\s\<close> on code units below 256: tab, line feed, vertical tab, form feed, carriage
  return, space and the no-break space.
\<close>

definition ws :: "char \<Rightarrow> bool" where
  "ws c \<longleftrightarrow> c \<in> set [CHR 0x09, CHR 0x0A, CHR 0x0B, CHR 0x0C, CHR 0x0D, CHR 0x20, CHR 0xA0]"

text \<open>
  The \<^verbatim>\<open>i\<close> flag without the \<^verbatim>\<open>u\<close> flag compares upper-cased code units and never
  lets a code unit above 127 stand for an ASCII one, and the patterns are ASCII: two code
  units match when they are equal after the ASCII letters are folded.
\<close>

definition lower :: "char \<Rightarrow> char" where
  "lower c =
     (case map_of (zip ''ABCDEFGHIJKLMNOPQRSTUVWXYZ'' ''abcdefghijklmnopqrstuvwxyz'') c of
        None \<Rightarrow> c
      | Some d \<Rightarrow> d)"

text \<open>The text starts with the literal, case folded.\<close>

definition ci_prefix :: "string \<Rightarrow> string \<Rightarrow> bool" where
  "ci_prefix lit s \<longleftrightarrow> prefix (map lower lit) (map lower s)"

subsection \<open>Global replacement\<close>

text \<open>
  \<^verbatim>\<open>String.prototype.replace\<close> with a global pattern, and \<^verbatim>\<open>replaceAll\<close>: the text is
  scanned from the left; \<open>m\<close> tells whether the pattern matches at the current position,
  and then gives the replacement and the number of code units matched. A match is
  replaced and the scan goes on behind it; an empty match puts its replacement in front
  of the current code unit and moves one on; without a match the code unit is copied.
\<close>

fun gsub :: "(string \<Rightarrow> (string \<times> nat) option) \<Rightarrow> string \<Rightarrow> string" where
  "gsub m [] = (case m [] of None \<Rightarrow> [] | Some (r, n) \<Rightarrow> r)"
| "gsub m (c # cs) =
     (case m (c # cs) of
        None \<Rightarrow> c # gsub m cs
      | Some (r, n) \<Rightarrow>
          if n = 0 then r @ c # gsub m cs else r @ gsub m (drop n (c # cs)))"

subsection \<open>The patterns, as matchers at a position\<close>

text \<open>\<^verbatim>\<open>safe.replaceAll(apiKey, "[REDACTED]")\<close>: the literal key.\<close>

definition match_literal :: "string \<Rightarrow> string \<Rightarrow> (string \<times> nat) option" where
  "match_literal k s = (if prefix k s then Some (''[REDACTED]'', length k) else None)"

text \<open>
  \<^verbatim>\<open>/[?&](key|api_key|apikey|token|access_token)=[^&\s]*/gi\<close> replaced by
  \<^verbatim>\<open>"?$1=[REDACTED]"\<close>. The alternatives are tried in order, each followed by the equals
  sign; the value is the longest run without an ampersand and without whitespace.
\<close>

definition param_names :: "string list" where
  "param_names = [''key'', ''api_key'', ''apikey'', ''token'', ''access_token'']"

definition match_param :: "string \<Rightarrow> (string \<times> nat) option" where
  "match_param s =
     (case s of
        [] \<Rightarrow> None
      | c # cs \<Rightarrow>
          if c = CHR ''?'' \<or> c = CHR ''&'' then
            (case find (\<lambda>n. ci_prefix (n @ ''='') cs) param_names of
               None \<Rightarrow> None
             | Some n \<Rightarrow>
                 let name = take (length n) cs;
                     val = takeWhile (\<lambda>x. x \<noteq> CHR ''&'' \<and> \<not> ws x) (drop (length n + 1) cs)
                 in Some (''?'' @ name @ ''=[REDACTED]'', 1 + length n + 1 + length val))
          else None)"

text \<open>
  A header name, \<^verbatim>\<open>\s*\<close>, then \<^verbatim>\<open>\S+\<close>: the whitespace run is skipped whole, and
  the match fails when nothing but whitespace follows the name. The result is the text
  from the token on and the token.
\<close>

definition header_token :: "string \<Rightarrow> string \<Rightarrow> (string \<times> string) option" where
  "header_token name s =
     (if ci_prefix name s then
        (let r = dropWhile ws (drop (length name) s) in
         if r = [] then None else Some (r, takeWhile (\<lambda>x. \<not> ws x) r))
      else None)"

text \<open>
  \<^verbatim>\<open>/Authorization:\s*(Bearer\s+)?\S+/gi\<close>. The optional group takes part when
  \<^verbatim>\<open>Bearer\<close>, at least one whitespace and then a token follow; otherwise the token
  starts right behind the first whitespace run.
\<close>

definition match_authorization :: "string \<Rightarrow> (string \<times> nat) option" where
  "match_authorization s =
     (case header_token ''Authorization:'' s of
        None \<Rightarrow> None
      | Some (r, tok) \<Rightarrow>
          let after = drop 6 r;
              r' = dropWhile ws after
          in if ci_prefix ''Bearer'' r \<and> after \<noteq> [] \<and> ws (hd after) \<and> r' \<noteq> []
             then Some (''Authorization: [REDACTED]'',
                        length s - length r' + length (takeWhile (\<lambda>x. \<not> ws x) r'))
             else Some (''Authorization: [REDACTED]'', length s - length r + length tok))"

text \<open>\<^verbatim>\<open>/x-goog-api-key:\s*\S+/gi\<close> and \<^verbatim>\<open>/x-api-key:\s*\S+/gi\<close>.\<close>

definition match_header :: "string \<Rightarrow> string \<Rightarrow> (string \<times> nat) option" where
  "match_header name s =
     (case header_token name s of
        None \<Rightarrow> None
      | Some (r, tok) \<Rightarrow> Some (name @ '' [REDACTED]'', length s - length r + length tok))"

text \<open>
  \<^verbatim>\<open>/https?:\/\/[^\s]*\?[^\s]*/g\<close>, case sensitive: the scheme and then the whole run
  without whitespace, which has to hold a question mark.
\<close>

definition match_url :: "string \<Rightarrow> (string \<times> nat) option" where
  "match_url s =
     (let scheme = (if prefix ''https://'' s then Some 8
                    else if prefix ''http://'' s then Some 7 else None)
      in case scheme of
           None \<Rightarrow> None
         | Some k \<Rightarrow>
             let run = takeWhile (\<lambda>x. \<not> ws x) (drop k s)
             in if CHR ''?'' \<in> set run then Some (take (k + length run) s, k + length run)
                else None)"

text \<open>
  The callback of the last replacement. \<^verbatim>\<open>new URL(url)\<close> is the platform's parser,
  the parameter \<open>parseUrl\<close>: it gives the origin and the path name, or \<open>None\<close> when it
  throws. The handler's \<^verbatim>\<open>url.replace(/\?.*/, ...)\<close> replaces, once, the first question
  mark and what follows it up to a line terminator (here line feed or carriage return).
\<close>

definition line_terminator :: "char \<Rightarrow> bool" where
  "line_terminator c \<longleftrightarrow> c = CHR 0x0A \<or> c = CHR 0x0D"

definition strip_query :: "string \<Rightarrow> string" where
  "strip_query u =
     (let pre = takeWhile (\<lambda>x. x \<noteq> CHR ''?'') u;
          rest = dropWhile (\<lambda>x. x \<noteq> CHR ''?'') u
      in case rest of
           [] \<Rightarrow> u
         | q # t \<Rightarrow> pre @ ''?[QUERY_REDACTED]'' @ dropWhile (\<lambda>x. \<not> line_terminator x) t)"

definition redact_url :: "(string \<Rightarrow> (string \<times> string) option) \<Rightarrow> string \<Rightarrow> string" where
  "redact_url parseUrl u =
     (case parseUrl u of
        Some (origin, pathname) \<Rightarrow> origin @ pathname @ ''?[QUERY_REDACTED]''
      | None \<Rightarrow> strip_query u)"

definition match_url_redact ::
  "(string \<Rightarrow> (string \<times> string) option) \<Rightarrow> string \<Rightarrow> (string \<times> nat) option" where
  "match_url_redact parseUrl s =
     (case match_url s of None \<Rightarrow> None | Some (u, n) \<Rightarrow> Some (redact_url parseUrl u, n))"

subsection \<open>redactError\<close>

definition redact_key :: "string option \<Rightarrow> string \<Rightarrow> string" where
  "redact_key known safe =
     (case known of
        None \<Rightarrow> safe
      | Some k \<Rightarrow> if k \<noteq> [] \<and> length k > 4 then gsub (match_literal k) safe else safe)"

definition redact_params :: "string \<Rightarrow> string" where
  "redact_params safe = gsub match_param safe"

definition redact_headers :: "string \<Rightarrow> string" where
  "redact_headers safe =
     gsub (match_header ''x-api-key:'')
       (gsub (match_header ''x-goog-api-key:'')
         (gsub match_authorization safe))"

definition redactError ::
  "(string \<Rightarrow> (string \<times> string) option) \<Rightarrow> string \<Rightarrow> string option \<Rightarrow> string" where
  "redactError parseUrl err known =
     gsub (match_url_redact parseUrl)
       (redact_headers (redact_params (redact_key known err)))"

subsection \<open>Notions used to state the properties of the redaction\<close>


section \<open>The provider adapters (ai-client.ts)\<close>

subsection \<open>Requests, responses and the platform\<close>

record AiRequest =
  system :: string
  user_message :: string
  maxTokens :: rat

text \<open>
  \<^verbatim>\<open>{ ok, text?, error? }\<close>. The text of a success is whatever truthy value stood in the
  content field of the response.
\<close>

record AiResponse =
  ok :: bool
  r_text :: "json option"
  r_error :: "string option"

record Request =
  url :: string
  http_method :: string
  headers :: "(string \<times> string) list"
  payload :: "json option"

text \<open>
  A response of \<^verbatim>\<open>fetch\<close>: its status, and what \<^verbatim>\<open>res.json()\<close> gives when it is
  called (the parsed body, or the error it throws). \<^verbatim>\<open>res.ok\<close> is a status from 200
  to 299.
\<close>

record Response =
  status :: nat
  body :: "js_error + json"

definition res_ok :: "Response \<Rightarrow> bool" where
  "res_ok res \<longleftrightarrow> 200 \<le> status res \<and> status res \<le> 299"

datatype fetch_outcome =
    Fetched Response
  | Aborted
  | Failed js_error

text \<open>
  What the code needs from the platform: the network, the conversion of a value to a
  string inside a template literal, and the URL parser of the redaction.
\<close>

record platform =
  fetch :: "Request \<Rightarrow> fetch_outcome"
  toStr :: "json \<Rightarrow> string"
  parseUrl :: "string \<Rightarrow> (string \<times> string) option"

text \<open>The effects of a call that can be seen from outside, in order.\<close>

datatype event =
    NetFetch Request
  | ReadJson
  | ConsoleWarn string

type_synonym 'a io = "(js_error + 'a) \<times> event list"

text \<open>The decimal digits of a status code in a template literal.\<close>

definition digit :: "nat \<Rightarrow> char" where
  "digit d = ''0123456789'' ! d"

fun show_nat :: "nat \<Rightarrow> string" where
  "show_nat n = (if n < 10 then [digit n] else show_nat (n div 10) @ [digit (n mod 10)])"

subsection \<open>Reading a parsed body\<close>

text \<open>
  \<^verbatim>\<open>v.name\<close> for a value that is neither \<^verbatim>\<open>null\<close> nor \<^verbatim>\<open>undefined\<close>, for the
  property names read below, none of which a string, a number, a boolean or an array has.
\<close>

fun get_prop :: "json \<Rightarrow> string \<Rightarrow> json option" where
  "get_prop (JObj kvs) k = map_of kvs k"
| "get_prop v k = None"

text \<open>\<^verbatim>\<open>v?.name\<close>.\<close>

definition opt_prop :: "json option \<Rightarrow> string \<Rightarrow> json option" where
  "opt_prop v k = (case v of None \<Rightarrow> None | Some JNull \<Rightarrow> None | Some x \<Rightarrow> get_prop x k)"

text \<open>
  \<^verbatim>\<open>v?.[0]\<close>: the first element of an array, the first code unit of a string, the
  property named 0 of an object.
\<close>

definition opt_first :: "json option \<Rightarrow> json option" where
  "opt_first v =
     (case v of
        Some (JArr xs) \<Rightarrow> (case xs of [] \<Rightarrow> None | x # _ \<Rightarrow> Some x)
      | Some (JStr s) \<Rightarrow> (case s of [] \<Rightarrow> None | c # _ \<Rightarrow> Some (JStr [c]))
      | Some (JObj kvs) \<Rightarrow> map_of kvs ''0''
      | _ \<Rightarrow> None)"

text \<open>\<^verbatim>\<open>a || b\<close>.\<close>

definition or_else :: "json option \<Rightarrow> json option \<Rightarrow> json option" where
  "or_else a b = (if truthy a then a else b)"

subsection \<open>fetchWithTimeout\<close>

text \<open>
  An abort by the timer is rethrown as the error with the message
  \<^verbatim>\<open>Request timed out\<close>; any other error is rethrown as it is.
\<close>

definition fetchWithTimeout :: "platform \<Rightarrow> Request \<Rightarrow> Response io" where
  "fetchWithTimeout pf rq =
     (case fetch pf rq of
        Fetched res \<Rightarrow> (Inr res, [NetFetch rq])
      | Aborted \<Rightarrow> (Inl TimeoutError, [NetFetch rq])
      | Failed e \<Rightarrow> (Inl e, [NetFetch rq]))"

definition failure :: "string \<Rightarrow> AiResponse" where
  "failure msg = \<lparr>ok = False, r_text = None, r_error = Some msg\<rparr>"

definition success :: "json option \<Rightarrow> AiResponse" where
  "success t = \<lparr>ok = True, r_text = t, r_error = None\<rparr>"

text \<open>
  The frame all four adapters share: the request, the status check in front of any read
  of the body, \<^verbatim>\<open>await res.json()\<close>, and then the adapter's own reading of the data.
\<close>

definition with_json ::
  "platform \<Rightarrow> Request \<Rightarrow> (json \<Rightarrow> AiResponse io) \<Rightarrow> AiResponse io" where
  "with_json pf rq k =
     (case fetchWithTimeout pf rq of
        (Inl e, tr) \<Rightarrow> (Inl e, tr)
      | (Inr res, tr) \<Rightarrow>
          if \<not> res_ok res
          then (Inr (failure (''Request failed, status '' @ show_nat (status res))), tr)
          else (case body res of
                  Inl e \<Rightarrow> (Inl e, tr @ [ReadJson])
                | Inr data \<Rightarrow> (case k data of (r, tr') \<Rightarrow> (r, tr @ [ReadJson] @ tr'))))"

subsection \<open>Gemini\<close>

definition gemini_request :: "string \<Rightarrow> string \<Rightarrow> AiRequest \<Rightarrow> Request" where
  "gemini_request key mdl req =
     \<lparr>url = ''https://generativelanguage.googleapis.com/v1beta/models/'' @ mdl
              @ '':generateContent'',
      http_method = ''POST'',
      headers = [(''Content-Type'', ''application/json''), (''x-goog-api-key'', key)],
      payload = Some (JObj
        [(''systemInstruction'', JObj [(''parts'', JArr [JObj [(''text'', JStr (system req))]])]),
         (''contents'', JArr [JObj [(''parts'', JArr [JObj [(''text'', JStr (user_message req))]])]]),
         (''generationConfig'', JObj
            [(''maxOutputTokens'', JNum (maxTokens req)),
             (''thinkingConfig'', JObj [(''thinkingBudget'', JNum 0)])])])\<rparr>"

definition gemini_candidate :: "json \<Rightarrow> json option" where
  "gemini_candidate data = opt_first (opt_prop (Some data) ''candidates'')"

definition gemini_finishReason :: "json \<Rightarrow> json option" where
  "gemini_finishReason data = opt_prop (gemini_candidate data) ''finishReason''"

definition gemini_blockReason :: "json \<Rightarrow> json option" where
  "gemini_blockReason data = opt_prop (opt_prop (Some data) ''promptFeedback'') ''blockReason''"

definition gemini_safetyRatings :: "json \<Rightarrow> json option" where
  "gemini_safetyRatings data =
     or_else (opt_prop (gemini_candidate data) ''safetyRatings'')
       (opt_prop (opt_prop (Some data) ''promptFeedback'') ''safetyRatings'')"

text \<open>
  The callback of \<^verbatim>\<open>safetyRatings.filter\<close> reads \<^verbatim>\<open>r.probability\<close>, which throws
  for a \<^verbatim>\<open>null\<close> entry. The texts of the two TypeErrors are the engine's (V8's here).
\<close>

fun gemini_flagged :: "json list \<Rightarrow> js_error + json list" where
  "gemini_flagged [] = Inr []"
| "gemini_flagged (r # rs) =
     (if r = JNull
      then Inl (TypeError (''Cannot read properties of null (reading '' @ [CHR 0x27]
                  @ ''probability'' @ [CHR 0x27] @ '')''))
      else (case gemini_flagged rs of
              Inl e \<Rightarrow> Inl e
            | Inr fs \<Rightarrow>
                let p = get_prop r ''probability''
                in Inr (if p \<noteq> Some (JStr ''NEGLIGIBLE'') \<and> p \<noteq> Some (JStr ''LOW'')
                        then r # fs else fs)))"

text \<open>
  The logging block between the parse and the extraction of the text. A truthy
  \<^verbatim>\<open>safetyRatings\<close> that is not an array has no \<^verbatim>\<open>filter\<close> method, and the call throws.
\<close>

definition gemini_debug :: "json \<Rightarrow> unit io" where
  "gemini_debug data =
     (let finishReason = gemini_finishReason data;
          blockReason = gemini_blockReason data;
          safetyRatings = gemini_safetyRatings data;
          w1 = (if truthy finishReason \<and> finishReason \<noteq> Some (JStr ''STOP'')
                then [ConsoleWarn ''[MWAB Gemini] finishReason:''] else []);
          w2 = (if truthy blockReason then [ConsoleWarn ''[MWAB Gemini] blockReason:''] else [])
      in if truthy safetyRatings then
           (case safetyRatings of
              Some (JArr rs) \<Rightarrow>
                (case gemini_flagged rs of
                   Inl e \<Rightarrow> (Inl e, w1 @ w2)
                 | Inr flagged \<Rightarrow>
                     (Inr (), w1 @ w2 @ (if flagged \<noteq> []
                                         then [ConsoleWarn ''[MWAB Gemini] safety flags:'']
                                         else [])))
            | _ \<Rightarrow> (Inl (TypeError ''safetyRatings.filter is not a function''), w1 @ w2))
         else (Inr (), w1 @ w2))"

definition gemini_text :: "json \<Rightarrow> json option" where
  "gemini_text data =
     opt_prop (opt_first (opt_prop (opt_prop (gemini_candidate data) ''content'') ''parts''))
       ''text''"

definition gemini_detail :: "platform \<Rightarrow> json \<Rightarrow> string" where
  "gemini_detail pf data =
     (let finishReason = gemini_finishReason data;
          blockReason = gemini_blockReason data
      in ''Empty response from Gemini'' @
         (if truthy blockReason
          then '' (blocked: '' @ (case blockReason of Some b \<Rightarrow> toStr pf b | None \<Rightarrow> []) @ '')''
          else if finishReason = Some (JStr ''SAFETY'') then '' (safety filter triggered)''
          else if finishReason = Some (JStr ''MAX_TOKENS'')
          then '' (output truncated: max tokens reached)''
          else if finishReason = Some (JStr ''RECITATION'') then '' (blocked: recitation)''
          else if truthy finishReason
          then '' (finishReason: '' @ (case finishReason of Some f \<Rightarrow> toStr pf f | None \<Rightarrow> [])
               @ '')''
          else []))"

definition gemini_result :: "platform \<Rightarrow> json \<Rightarrow> AiResponse io" where
  "gemini_result pf data =
     (let t = gemini_text data in
      if \<not> truthy t then (Inr (failure (gemini_detail pf data)), [])
      else (Inr (success t),
            if gemini_finishReason data = Some (JStr ''MAX_TOKENS'')
            then [ConsoleWarn ''[MWAB Gemini] Response may be truncated (MAX_TOKENS)'']
            else []))"

definition gemini_read :: "platform \<Rightarrow> json \<Rightarrow> AiResponse io" where
  "gemini_read pf data =
     (case gemini_debug data of
        (Inl e, tr) \<Rightarrow> (Inl e, tr)
      | (Inr u, tr) \<Rightarrow> (case gemini_result pf data of (r, tr') \<Rightarrow> (r, tr @ tr')))"

definition callGemini :: "platform \<Rightarrow> string \<Rightarrow> string \<Rightarrow> AiRequest \<Rightarrow> AiResponse io" where
  "callGemini pf key mdl req = with_json pf (gemini_request key mdl req) (gemini_read pf)"

subsection \<open>OpenAI, Anthropic, Ollama\<close>

definition text_or :: "json option \<Rightarrow> string \<Rightarrow> AiResponse io" where
  "text_or t msg = (if truthy t then (Inr (success t), []) else (Inr (failure msg), []))"

definition chat_messages :: "AiRequest \<Rightarrow> json" where
  "chat_messages req =
     JArr [JObj [(''role'', JStr ''system''), (''content'', JStr (system req))],
           JObj [(''role'', JStr ''user''), (''content'', JStr (user_message req))]]"

definition openai_request :: "string \<Rightarrow> string \<Rightarrow> AiRequest \<Rightarrow> Request" where
  "openai_request key mdl req =
     \<lparr>url = ''https://api.openai.com/v1/chat/completions'',
      http_method = ''POST'',
      headers = [(''Content-Type'', ''application/json''), (''Authorization'', ''Bearer '' @ key)],
      payload = Some (JObj
        [(''model'', JStr mdl), (''messages'', chat_messages req),
         (''max_tokens'', JNum (maxTokens req))])\<rparr>"

definition openai_text :: "json \<Rightarrow> json option" where
  "openai_text data =
     opt_prop (opt_prop (opt_first (opt_prop (Some data) ''choices'')) ''message'') ''content''"

definition callOpenAi :: "platform \<Rightarrow> string \<Rightarrow> string \<Rightarrow> AiRequest \<Rightarrow> AiResponse io" where
  "callOpenAi pf key mdl req =
     with_json pf (openai_request key mdl req)
       (\<lambda>data. text_or (openai_text data) ''Empty response from OpenAI'')"

definition anthropic_request :: "string \<Rightarrow> string \<Rightarrow> AiRequest \<Rightarrow> Request" where
  "anthropic_request key mdl req =
     \<lparr>url = ''https://api.anthropic.com/v1/messages'',
      http_method = ''POST'',
      headers = [(''Content-Type'', ''application/json''), (''x-api-key'', key),
                 (''anthropic-version'', ''2023-06-01''),
                 (''anthropic-dangerous-direct-browser-access'', ''true'')],
      payload = Some (JObj
        [(''model'', JStr mdl), (''max_tokens'', JNum (maxTokens req)),
         (''system'', JStr (system req)),
         (''messages'', JArr [JObj [(''role'', JStr ''user''),
                                    (''content'', JStr (user_message req))]])])\<rparr>"

definition anthropic_text :: "json \<Rightarrow> json option" where
  "anthropic_text data = opt_prop (opt_first (opt_prop (Some data) ''content'')) ''text''"

definition callAnthropic :: "platform \<Rightarrow> string \<Rightarrow> string \<Rightarrow> AiRequest \<Rightarrow> AiResponse io" where
  "callAnthropic pf key mdl req =
     with_json pf (anthropic_request key mdl req)
       (\<lambda>data. text_or (anthropic_text data) ''Empty response from Anthropic'')"

definition ollama_request :: "string \<Rightarrow> string \<Rightarrow> AiRequest \<Rightarrow> Request" where
  "ollama_request baseUrl mdl req =
     \<lparr>url = baseUrl @ ''/api/chat'',
      http_method = ''POST'',
      headers = [(''Content-Type'', ''application/json'')],
      payload = Some (JObj
        [(''model'', JStr mdl), (''messages'', chat_messages req),
         (''stream'', JBool False),
         (''options'', JObj [(''num_predict'', JNum (maxTokens req))])])\<rparr>"

definition ollama_text :: "json \<Rightarrow> json option" where
  "ollama_text data = opt_prop (opt_prop (Some data) ''message'') ''content''"

definition callOllama :: "platform \<Rightarrow> string \<Rightarrow> string \<Rightarrow> AiRequest \<Rightarrow> AiResponse io" where
  "callOllama pf baseUrl mdl req =
     with_json pf (ollama_request baseUrl mdl req)
       (\<lambda>data. text_or (ollama_text data) ''Empty response from Ollama'')"

subsection \<open>callAi\<close>

text \<open>
  The key and the model are read in front of the \<^verbatim>\<open>try\<close>; what an adapter throws is
  caught and becomes a failure with the redacted message.
\<close>

definition dispatch :: "platform \<Rightarrow> AiSettings \<Rightarrow> string \<Rightarrow> string \<Rightarrow> AiRequest \<Rightarrow> AiResponse io" where
  "dispatch pf s key mdl req =
     (if provider s = ''gemini'' then callGemini pf key mdl req
      else if provider s = ''openai'' then callOpenAi pf key mdl req
      else if provider s = ''anthropic'' then callAnthropic pf key mdl req
      else if provider s = ''ollama'' then callOllama pf (ollamaUrl s) mdl req
      else (Inr (failure (''Unknown provider: '' @ provider s)), []))"

definition callAi :: "platform \<Rightarrow> string \<Rightarrow> AiSettings \<Rightarrow> AiRequest \<Rightarrow> AiResponse io" where
  "callAi pf ollamaLocal s req =
     (case getApiKey s of
        Inl e \<Rightarrow> (Inl e, [])
      | Inr key \<Rightarrow>
          (case getModel ollamaLocal s of
             Inl e \<Rightarrow> (Inl e, [])
           | Inr mdl \<Rightarrow>
               (case dispatch pf s key mdl req of
                  (Inl e, tr) \<Rightarrow>
                    (Inr (failure (redactError (parseUrl pf) (message e) (Some key))), tr)
                | (Inr r, tr) \<Rightarrow> (Inr r, tr))))"

subsection \<open>Notions used to state the properties of the adapters\<close>

text \<open>The request that \<open>dispatch\<close> sends for a known provider, and the content field it reads.\<close>

definition provider_request :: "AiSettings \<Rightarrow> string \<Rightarrow> string \<Rightarrow> AiRequest \<Rightarrow> Request" where
  "provider_request s key mdl req =
     (if provider s = ''gemini'' then gemini_request key mdl req
      else if provider s = ''openai'' then openai_request key mdl req
      else if provider s = ''anthropic'' then anthropic_request key mdl req
      else ollama_request (ollamaUrl s) mdl req)"

definition provider_text :: "AiSettings \<Rightarrow> json \<Rightarrow> json option" where
  "provider_text s data =
     (if provider s = ''gemini'' then gemini_text data
      else if provider s = ''openai'' then openai_text data
      else if provider s = ''anthropic'' then anthropic_text data
      else ollama_text data)"

text \<open>A returned result that is \<^verbatim>\<open>{ok: false}\<close> with a non-empty error text.\<close>

definition is_failure :: "AiResponse io \<Rightarrow> bool" where
  "is_failure out =
     (case fst out of
        Inl e \<Rightarrow> False
      | Inr r \<Rightarrow> \<not> ok r \<and> (case r_error r of None \<Rightarrow> False | Some e \<Rightarrow> e \<noteq> []))"

definition known_providers :: "string set" where
  "known_providers = {''gemini'', ''openai'', ''anthropic'', ''ollama''}"

section \<open>Example inputs\<close>

definition cfg_example :: AiSettings where
  "cfg_example = DEFAULT_AI_SETTINGS\<lparr>enabled := True, provider := ''openai'',
     providers := Some [''openai'' \<mapsto> \<lparr>apiKey = ''sk-1'', model = ''''\<rparr>]\<rparr>"

definition legacy_example :: AiSettings where
  "legacy_example =
     \<lparr>enabled = True, provider = ''gemini'', s_apiKey = Some ''old-key'',
      s_model = Some ''old-model'', providers = None, ollamaUrl = ''http://localhost:11434'',
      persona = None, ollamaModel = Some (JStr ''llama3'')\<rparr>"

definition keeps :: "ProviderConfig \<Rightarrow> ProviderConfig \<Rightarrow> bool" where
  "keeps c c' \<longleftrightarrow>
     (apiKey c \<noteq> [] \<longrightarrow> apiKey c' = apiKey c) \<and> (model c \<noteq> [] \<longrightarrow> model c' = model c)"

definition both_example :: AiSettings where
  "both_example =
     \<lparr>enabled = True, provider = ''ollama'', s_apiKey = Some ''old-key'',
      s_model = Some ''old-model'',
      providers = Some [''ollama'' \<mapsto> \<lparr>apiKey = ''new-key'', model = ''new-model''\<rparr>],
      ollamaUrl = ''http://localhost:11434'',
      persona = None, ollamaModel = Some (JStr ''llama3'')\<rparr>"

definition discard_example :: AiSettings where
  "discard_example =
     \<lparr>enabled = True, provider = ''openai'', s_apiKey = Some ''flat-key'',
      s_model = Some ''flat-model'',
      providers = Some [''openai'' \<mapsto> \<lparr>apiKey = ''slot-key'', model = ''slot-model''\<rparr>],
      ollamaUrl = ''http://localhost:11434'',
      persona = None, ollamaModel = None\<rparr>"

definition unknown_example :: AiSettings where
  "unknown_example = DEFAULT_AI_SETTINGS\<lparr>enabled := True, provider := ''mistral''\<rparr>"

definition dead_platform :: platform where
  "dead_platform =
     \<lparr>fetch = (\<lambda>rq. Failed (NetworkError ''Failed to fetch'')),
      toStr = (\<lambda>v. case v of JStr s \<Rightarrow> s | _ \<Rightarrow> ''[object Object]''),
      parseUrl = (\<lambda>u. None)\<rparr>"

definition hello_request :: AiRequest where
  "hello_request = \<lparr>system = ''You are a helpful assistant.'', user_message = ''Hello!'',
                     maxTokens = 100\<rparr>"

definition canned_platform :: "Response \<Rightarrow> platform" where
  "canned_platform res =
     \<lparr>fetch = (\<lambda>rq. Fetched res),
      toStr = (\<lambda>v. case v of JStr s \<Rightarrow> s | _ \<Rightarrow> ''[object Object]''),
      parseUrl = (\<lambda>u. None)\<rparr>"

definition openai_example :: AiSettings where
  "openai_example = DEFAULT_AI_SETTINGS\<lparr>enabled := True, provider := ''openai'',
     providers := Some [''openai'' \<mapsto> \<lparr>apiKey = ''sk-test-1'', model = ''''\<rparr>]\<rparr>"

definition gemini_example :: AiSettings where
  "gemini_example = DEFAULT_AI_SETTINGS\<lparr>enabled := True, provider := ''gemini'',
     providers := Some [''gemini'' \<mapsto> \<lparr>apiKey = ''AIza-test'', model = ''''\<rparr>]\<rparr>"

definition bad_ratings_body :: json where
  "bad_ratings_body = JObj [(''promptFeedback'', JObj [(''safetyRatings'', JStr ''HIGH'')])]"

section \<open>Properties of the settings layer\<close>

lemma migrate_ollama_snd_stable:
  "migrate_ollama (snd (migrate_ollama om ps)) ps' = (ps', snd (migrate_ollama om ps))"
  by (simp add: migrate_ollama_def Let_def split: option.splits json.splits)

lemma migrate_persona_idem: "migrate_persona (Some (migrate_persona po)) = migrate_persona po"
  by (simp add: migrate_persona_def Let_def DEFAULT_PERSONA_SETTINGS_def split: option.splits)

lemma providers_migrate:
  "providers (migrateSettings s) =
     Some (fst (migrate_ollama (ollamaModel s)
       (migrate_model s (migrate_apiKey s (ensure_providers s)))))"
  by (simp add: migrateSettings_def Let_def split: prod.splits)

lemma ollamaModel_migrate:
  "ollamaModel (migrateSettings s) =
     snd (migrate_ollama (ollamaModel s)
       (migrate_model s (migrate_apiKey s (ensure_providers s))))"
  by (simp add: migrateSettings_def Let_def split: prod.splits)

lemma legacy_migrate:
  "s_apiKey (migrateSettings s) = None" "s_model (migrateSettings s) = None"
  by (simp_all add: migrateSettings_def Let_def split: prod.splits)

lemma persona_migrate: "persona (migrateSettings s) = Some (migrate_persona (persona s))"
  by (simp add: migrateSettings_def Let_def split: prod.splits)

lemma migrate_idem: "migrateSettings (migrateSettings s) = migrateSettings s"
proof -
  let ?t = "migrateSettings s"
  have ap: "migrate_apiKey ?t ps = ps" for ps
    by (simp add: migrate_apiKey_def legacy_migrate)
  have mo: "migrate_model ?t ps = ps" for ps
    by (simp add: migrate_model_def legacy_migrate)
  have en: "ensure_providers ?t = the (providers ?t)"
    by (simp add: ensure_providers_def providers_migrate)
  have ol: "migrate_ollama (ollamaModel ?t) ps = (ps, ollamaModel ?t)" for ps
    unfolding ollamaModel_migrate by (rule migrate_ollama_snd_stable)
  have "migrateSettings ?t =
      ?t\<lparr>providers := Some (the (providers ?t)), ollamaModel := ollamaModel ?t,
         persona := Some (migrate_persona (persona ?t)), s_apiKey := None, s_model := None\<rparr>"
    by (subst migrateSettings_def) (simp add: Let_def ap mo en ol)
  also have "\<dots> = ?t"
    by (simp add: persona_migrate migrate_persona_idem providers_migrate legacy_migrate)
  finally show ?thesis .
qed

lemma find_PROVIDERS:
  "find (\<lambda>p. pi_id p = k) (PROVIDERS L) =
     (if k = ''gemini'' then Some (PROVIDERS L ! 0)
      else if k = ''openai'' then Some (PROVIDERS L ! 1)
      else if k = ''anthropic'' then Some (PROVIDERS L ! 2)
      else if k = ''ollama'' then Some (PROVIDERS L ! 3) else None)"
  by (simp add: PROVIDERS_def)

lemma isConfigured_cases:
  "isConfigured L s =
     (if \<not> enabled s then Inr False
      else if provider s \<in> {''gemini'', ''openai'', ''anthropic''}
      then (case getApiKey s of Inl e \<Rightarrow> Inl e | Inr k \<Rightarrow> Inr (k \<noteq> []))
      else if provider s = ''ollama'' then Inr True else Inr False)"
  unfolding isConfigured_def find_PROVIDERS
  by (simp add: PROVIDERS_def split: sum.splits)

lemma needs_key_PROVIDERS:
  "(\<forall>p \<in> set (PROVIDERS L). pi_id p = k \<longrightarrow> needsApiKey p \<longrightarrow> Q) \<longleftrightarrow>
     (k \<in> {''gemini'', ''openai'', ''anthropic''} \<longrightarrow> Q)"
  by (simp add: PROVIDERS_def) blast

text \<open>
  Claim C4. \<open>isConfigured\<close> returns true exactly when the settings are enabled, the
  provider is one of the four entries of \<open>PROVIDERS\<close>, and, where that entry needs an API
  key, \<open>getApiKey\<close> yields a non-empty string. With a \<^verbatim>\<open>providers\<close> object present
  the function always returns a boolean.
\<close>
theorem isConfigured_iff:
  "(isConfigured L s = Inr True \<longleftrightarrow>
      enabled s \<and> provider s \<in> {''gemini'', ''openai'', ''anthropic'', ''ollama''} \<and>
      (\<forall>p \<in> set (PROVIDERS L). pi_id p = provider s \<longrightarrow> needsApiKey p \<longrightarrow>
         (\<exists>k. getApiKey s = Inr k \<and> k \<noteq> [])))
   \<and> (providers s \<noteq> None \<longrightarrow> (\<exists>b. isConfigured L s = Inr b))"
proof
  show "isConfigured L s = Inr True \<longleftrightarrow>
      enabled s \<and> provider s \<in> {''gemini'', ''openai'', ''anthropic'', ''ollama''} \<and>
      (\<forall>p \<in> set (PROVIDERS L). pi_id p = provider s \<longrightarrow> needsApiKey p \<longrightarrow>
         (\<exists>k. getApiKey s = Inr k \<and> k \<noteq> []))"
    unfolding needs_key_PROVIDERS isConfigured_cases
    by (cases "getApiKey s") auto
  show "providers s \<noteq> None \<longrightarrow> (\<exists>b. isConfigured L s = Inr b)"
    unfolding isConfigured_cases
    by (cases "getApiKey s") (auto simp: getApiKey_def split: option.splits)
qed

lemma cfg_example_key: "getApiKey cfg_example = Inr ''sk-1''"
  by (simp add: cfg_example_def DEFAULT_AI_SETTINGS_def getApiKey_def)

theorem isConfigured_iff_witness:
  "isConfigured ''Ollama (Local)'' cfg_example = Inr True"
proof -
  have "enabled cfg_example" "provider cfg_example = ''openai''"
    by (simp_all add: cfg_example_def DEFAULT_AI_SETTINGS_def)
  then show ?thesis
    using isConfigured_iff [of "''Ollama (Local)''" cfg_example] cfg_example_key
    by simp
qed

lemma migrate_ollama_gone:
  "m \<noteq> [] \<Longrightarrow> snd (migrate_ollama (Some (JStr m)) ps) = None"
  by (simp add: migrate_ollama_def Let_def)

lemma migrate_ollama_kept:
  "(\<forall>m. om = Some (JStr m) \<longrightarrow> m = []) \<Longrightarrow> snd (migrate_ollama om ps) = om"
  by (auto simp: migrate_ollama_def Let_def split: option.splits json.splits)

text \<open>
  Claim C3, as amended. Running \<open>migrateSettings\<close> on its own result changes nothing.
  After one run the flat \<^verbatim>\<open>apiKey\<close> and \<^verbatim>\<open>model\<close> are absent; \<^verbatim>\<open>ollamaModel\<close> is
  absent when it was a non-empty string, and is left exactly as it was in every other case
  (absent, the empty string, or a value that is not a string).
\<close>
theorem migrateSettings_idempotent:
  "migrateSettings (migrateSettings s) = migrateSettings s
   \<and> s_apiKey (migrateSettings s) = None
   \<and> s_model (migrateSettings s) = None
   \<and> (\<forall>m. ollamaModel s = Some (JStr m) \<and> m \<noteq> [] \<longrightarrow> ollamaModel (migrateSettings s) = None)
   \<and> ((\<forall>m. ollamaModel s = Some (JStr m) \<longrightarrow> m = []) \<longrightarrow>
        ollamaModel (migrateSettings s) = ollamaModel s)"
  by (simp add: migrate_idem legacy_migrate ollamaModel_migrate migrate_ollama_gone
      migrate_ollama_kept)

theorem migrateSettings_idempotent_witness:
  "ollamaModel legacy_example = Some (JStr ''llama3'')
   \<and> ollamaModel (migrateSettings legacy_example) = None
   \<and> migrateSettings (migrateSettings legacy_example) = migrateSettings legacy_example"
  using migrateSettings_idempotent [of legacy_example]
  by (simp add: legacy_example_def)

text \<open>
  Claim C3 as first stated says that \<^verbatim>\<open>ollamaModel\<close> is gone after one run. An empty
  \<^verbatim>\<open>ollamaModel\<close> string fails the guard of its branch, where the only
  \<^verbatim>\<open>delete\<close> of that field stands, and survives the migration.
\<close>
theorem migrateSettings_keeps_empty_ollamaModel:
  "ollamaModel (migrateSettings (legacy_example\<lparr>ollamaModel := Some (JStr '''')\<rparr>))
     = Some (JStr '''')"
  by (simp add: ollamaModel_migrate migrate_ollama_def)

lemma keeps_refl: "keeps c c"
  by (simp add: keeps_def)

lemma keeps_trans: "keeps a b \<Longrightarrow> keeps b c \<Longrightarrow> keeps a c"
  by (auto simp: keeps_def)

lemma migrate_apiKey_keeps:
  "ps k = Some c \<Longrightarrow> \<exists>c'. migrate_apiKey s ps k = Some c' \<and> keeps c c'"
  by (auto simp: migrate_apiKey_def keeps_def slot_apiKey_def ensure_slot_def
      split: option.splits)

lemma migrate_model_keeps:
  "ps k = Some c \<Longrightarrow> \<exists>c'. migrate_model s ps k = Some c' \<and> keeps c c'"
  by (auto simp: migrate_model_def keeps_def slot_model_def ensure_slot_def
      split: option.splits)

lemma migrate_ollama_keeps:
  "ps k = Some c \<Longrightarrow> \<exists>c'. fst (migrate_ollama om ps) k = Some c' \<and> keeps c c'"
  by (auto simp: migrate_ollama_def keeps_def ensure_slot_def Let_def
      split: option.splits json.splits)

lemma migrateSettings_keeps:
  assumes "providers s = Some ps" "ps k = Some c"
  shows "\<exists>ps' c'. providers (migrateSettings s) = Some ps' \<and> ps' k = Some c' \<and> keeps c c'"
proof -
  have e: "ensure_providers s = ps"
    using assms by (simp add: ensure_providers_def)
  obtain c1 where c1: "migrate_apiKey s ps k = Some c1" "keeps c c1"
    using migrate_apiKey_keeps [of ps k c s] assms(2) by blast
  obtain c2 where c2: "migrate_model s (migrate_apiKey s ps) k = Some c2" "keeps c1 c2"
    using migrate_model_keeps [of "migrate_apiKey s ps" k c1 s] c1(1) by blast
  obtain c3 where c3:
    "fst (migrate_ollama (ollamaModel s) (migrate_model s (migrate_apiKey s ps))) k = Some c3"
    "keeps c2 c3"
    using migrate_ollama_keeps [of "migrate_model s (migrate_apiKey s ps)" k c2 "ollamaModel s"] c2(1) by blast
  have "keeps c c3"
    using c1(2) c2(2) c3(2) by (blast intro: keeps_trans)
  then show ?thesis
    using c3(1) by (simp add: providers_migrate e)
qed

text \<open>
  Claim C8. A per-provider entry that is present before the migration is present after
  it, and each of its two fields that was non-empty holds the same value, whatever the
  flat \<^verbatim>\<open>apiKey\<close>, \<^verbatim>\<open>model\<close> and \<^verbatim>\<open>ollamaModel\<close> fields are. This holds for
  every key \<open>k\<close> of the map, the selected provider among them.
\<close>
theorem migrateSettings_never_overwrites:
  assumes "providers s = Some ps" and "ps k = Some c"
  shows "\<exists>ps' c'. providers (migrateSettings s) = Some ps' \<and> ps' k = Some c'
           \<and> (apiKey c \<noteq> [] \<longrightarrow> apiKey c' = apiKey c)
           \<and> (model c \<noteq> [] \<longrightarrow> model c' = model c)"
  using migrateSettings_keeps [OF assms] by (simp add: keeps_def)

theorem migrateSettings_never_overwrites_witness:
  "\<exists>ps' c'. providers (migrateSettings both_example) = Some ps' \<and> ps' ''ollama'' = Some c'
      \<and> apiKey c' = ''new-key'' \<and> model c' = ''new-model''"
  using migrateSettings_never_overwrites
    [of both_example "[''ollama'' \<mapsto> \<lparr>apiKey = ''new-key'', model = ''new-model''\<rparr>]"
        "''ollama''" "\<lparr>apiKey = ''new-key'', model = ''new-model''\<rparr>"]
  by (simp add: both_example_def)

lemma migrate_apiKey_filled:
  "slot_apiKey ps (provider s) \<noteq> [] \<Longrightarrow> migrate_apiKey s ps = ps"
  by (simp add: migrate_apiKey_def split: option.splits)

lemma migrate_model_filled:
  "slot_model ps (provider s) \<noteq> [] \<Longrightarrow> migrate_model s ps = ps"
  by (simp add: migrate_model_def split: option.splits)

lemma slot_model_migrate_apiKey:
  "slot_model ps (provider s) \<noteq> [] \<Longrightarrow> slot_model (migrate_apiKey s ps) (provider s) \<noteq> []"
  by (auto simp: migrate_apiKey_def slot_model_def ensure_slot_def split: option.splits)

text \<open>
  With a filled slot the flat value has no influence on the result at all: whatever the
  flat field held, the migrated settings are the same.
\<close>

lemma migrateSettings_flat_apiKey_unused:
  assumes "providers s = Some ps" and "ps (provider s) = Some c" and "apiKey c \<noteq> []"
  shows "migrateSettings (s\<lparr>s_apiKey := v\<rparr>) = migrateSettings s"
proof -
  have e: "ensure_providers s = ps" "ensure_providers (s\<lparr>s_apiKey := v\<rparr>) = ps"
    using assms(1) by (simp_all add: ensure_providers_def)
  have f: "slot_apiKey ps (provider s) \<noteq> []"
    using assms(2,3) by (simp add: slot_apiKey_def)
  have a: "migrate_apiKey (s\<lparr>s_apiKey := v\<rparr>) ps = ps" "migrate_apiKey s ps = ps"
    using f by (simp_all add: migrate_apiKey_filled)
  have m: "migrate_model (s\<lparr>s_apiKey := v\<rparr>) ps = migrate_model s ps"
    by (simp add: migrate_model_def split: option.splits)
  show ?thesis
    by (simp add: migrateSettings_def Let_def e a m split: prod.splits)
qed

lemma migrateSettings_flat_model_unused:
  assumes "providers s = Some ps" and "ps (provider s) = Some c" and "model c \<noteq> []"
  shows "migrateSettings (s\<lparr>s_model := v\<rparr>) = migrateSettings s"
proof -
  have e: "ensure_providers s = ps" "ensure_providers (s\<lparr>s_model := v\<rparr>) = ps"
    using assms(1) by (simp_all add: ensure_providers_def)
  have a: "migrate_apiKey (s\<lparr>s_model := v\<rparr>) ps = migrate_apiKey s ps"
    by (simp add: migrate_apiKey_def split: option.splits)
  have "slot_model ps (provider s) \<noteq> []"
    using assms(2,3) by (simp add: slot_model_def)
  then have f: "slot_model (migrate_apiKey s ps) (provider s) \<noteq> []"
    by (rule slot_model_migrate_apiKey)
  have m: "migrate_model (s\<lparr>s_model := v\<rparr>) (migrate_apiKey s ps) = migrate_apiKey s ps"
    "migrate_model s (migrate_apiKey s ps) = migrate_apiKey s ps"
    using f migrate_model_filled [of "migrate_apiKey s ps" "s\<lparr>s_model := v\<rparr>"]
      migrate_model_filled [of "migrate_apiKey s ps" s] by simp_all
  show ?thesis
    by (simp add: migrateSettings_def Let_def e a m split: prod.splits)
qed

text \<open>
  Claim C10. The flat \<^verbatim>\<open>apiKey\<close> and \<^verbatim>\<open>model\<close> are absent after every run. Where
  the slot of the selected provider already held a non-empty value, that value is still
  there afterwards, and the flat value is discarded: the result of the migration is the
  same whatever the flat field held (\<open>k\<close>, \<open>m\<close> arbitrary, absent included), so nothing
  of the uncopied value is kept anywhere in the migrated settings.
\<close>
theorem migrateSettings_drops_legacy:
  "s_apiKey (migrateSettings s) = None \<and> s_model (migrateSettings s) = None
   \<and> (\<forall>ps c. providers s = Some ps \<and> ps (provider s) = Some c \<longrightarrow>
        (\<exists>ps' c'. providers (migrateSettings s) = Some ps' \<and> ps' (provider s) = Some c'
           \<and> (apiKey c \<noteq> [] \<longrightarrow> apiKey c' = apiKey c)
           \<and> (model c \<noteq> [] \<longrightarrow> model c' = model c))
        \<and> (apiKey c \<noteq> [] \<longrightarrow> migrateSettings (s\<lparr>s_apiKey := k\<rparr>) = migrateSettings s)
        \<and> (model c \<noteq> [] \<longrightarrow> migrateSettings (s\<lparr>s_model := m\<rparr>) = migrateSettings s))"
proof -
  have "\<exists>ps' c'. providers (migrateSettings s) = Some ps' \<and> ps' (provider s) = Some c'
           \<and> (apiKey c \<noteq> [] \<longrightarrow> apiKey c' = apiKey c)
           \<and> (model c \<noteq> [] \<longrightarrow> model c' = model c)"
    if "providers s = Some ps" "ps (provider s) = Some c" for ps c
    using migrateSettings_keeps [OF that] by (simp add: keeps_def)
  then show ?thesis
    using migrateSettings_flat_apiKey_unused migrateSettings_flat_model_unused
    by (simp add: legacy_migrate)
qed

theorem migrateSettings_drops_legacy_witness:
  "s_apiKey discard_example = Some ''flat-key''
   \<and> s_model discard_example = Some ''flat-model''
   \<and> s_apiKey (migrateSettings discard_example) = None
   \<and> s_model (migrateSettings discard_example) = None
   \<and> (\<exists>ps' c'. providers (migrateSettings discard_example) = Some ps'
         \<and> ps' ''openai'' = Some c' \<and> apiKey c' = ''slot-key'' \<and> model c' = ''slot-model'')
   \<and> migrateSettings discard_example = migrateSettings (discard_example\<lparr>s_apiKey := None\<rparr>)
   \<and> migrateSettings discard_example = migrateSettings (discard_example\<lparr>s_model := None\<rparr>)"
  using migrateSettings_drops_legacy [of discard_example None None]
  by (simp add: discard_example_def)

lemma find_sorted_min:
  fixes k :: "'a \<Rightarrow> int"
  assumes "sorted (map k xs)" "f \<in> set xs" "P f" "\<forall>g\<in>set xs. P g \<longrightarrow> k f \<le> k g"
  shows "\<exists>g. find P xs = Some g \<and> P g \<and> k g = k f"
  using assms
proof (induction xs)
  case Nil then show ?case by simp
next
  case (Cons x xs)
  show ?case
  proof (cases "P x")
    case True
    then have "k f \<le> k x" using Cons.prems by simp
    moreover have "k x \<le> k f" using Cons.prems by auto
    ultimately show ?thesis using True by simp
  next
    case False
    then have "f \<in> set xs" using Cons.prems by auto
    then show ?thesis using Cons False by auto
  qed
qed

lemma prefix_same_length:
  "prefix g n \<Longrightarrow> prefix f n \<Longrightarrow> length g = length f \<Longrightarrow> g = f"
  by (auto simp: prefix_def)

lemma findFamily_longest:
  assumes "f \<in> set families" "prefix f n"
    and "\<forall>g\<in>set families. prefix g n \<longrightarrow> length g \<le> length f"
  shows "findFamily n = Some f"
proof -
  let ?k = "\<lambda>a::string. - int (length a)"
  have "sorted (map ?k sorted_families)"
    unfolding sorted_families_def by (rule sorted_sort_key)
  moreover have "f \<in> set sorted_families"
    using assms(1) by (simp add: sorted_families_def)
  moreover have "\<forall>g\<in>set sorted_families. prefix g n \<longrightarrow> ?k f \<le> ?k g"
    using assms(3) by (simp add: sorted_families_def)
  ultimately obtain g where g: "find (\<lambda>a. prefix a n) sorted_families = Some g"
      "prefix g n" "?k g = ?k f"
    using find_sorted_min [of ?k sorted_families f "\<lambda>a. prefix a n"] assms(2) by blast
  then have "g = f"
    using prefix_same_length [of g n f] assms(2) by simp
  then show ?thesis
    using g(1) by (simp add: findFamily_def)
qed

lemma findFamily_none:
  "(\<forall>f\<in>set families. \<not> prefix f n) \<Longrightarrow> findFamily n = None"
  by (simp add: findFamily_def find_None_iff sorted_families_def)

lemma findFamily_qwen: "findFamily ''qwen2.5-7b'' = Some ''qwen2.5''"
  by (simp add: findFamily_def sorted_families_def families_def JAPANESE_RATINGS_def)

text \<open>
  Claim C7. A family of the table that is a prefix of the model name and at least as long
  as every other family that is one is the family found, and its table entry is the
  result. The name qwen2.5-7b resolves to the family qwen2.5. A name that starts with no
  family gets the rating of the question mark and is not recommended.
\<close>
theorem getJapaneseRating_longest_prefix:
  "(\<forall>f\<in>set families. prefix f n \<and> (\<forall>g\<in>set families. prefix g n \<longrightarrow> length g \<le> length f)
      \<longrightarrow> findFamily n = Some f \<and> getJapaneseRating n = map_of JAPANESE_RATINGS f
          \<and> getJapaneseRating n \<noteq> None)
   \<and> findFamily ''qwen2.5-7b'' = Some ''qwen2.5''
   \<and> getJapaneseRating ''qwen2.5-7b'' = map_of JAPANESE_RATINGS ''qwen2.5''
   \<and> ((\<forall>f\<in>set families. \<not> prefix f n) \<longrightarrow>
        getJapaneseRating n = Some \<lparr>rating = [63], recommended = False\<rparr>)"
proof -
  have in_tab: "map_of JAPANESE_RATINGS f \<noteq> None" if "f \<in> set families" for f
    using that by (simp add: families_def map_of_eq_None_iff)
  show ?thesis
    by (auto simp: getJapaneseRating_def findFamily_longest findFamily_none findFamily_qwen
        dest: in_tab)
qed

theorem getJapaneseRating_longest_prefix_witness:
  "findFamily ''llama3.1:8b'' = Some ''llama3.1''
   \<and> getJapaneseRating ''llama3.1:8b'' = Some \<lparr>rating = [0x25B3], recommended = False\<rparr>
   \<and> getJapaneseRating ''deepseek-r1'' = Some \<lparr>rating = [63], recommended = False\<rparr>"
proof -
  have a: "''llama3.1'' \<in> set families"
    by (simp add: families_def JAPANESE_RATINGS_def)
  have b: "prefix ''llama3.1'' ''llama3.1:8b''"
    by simp
  have c: "\<forall>g\<in>set families. prefix g ''llama3.1:8b'' \<longrightarrow> length g \<le> length ''llama3.1''"
    by (simp add: families_def JAPANESE_RATINGS_def)
  have d: "\<forall>f\<in>set families. \<not> prefix f ''deepseek-r1''"
    by (simp add: families_def JAPANESE_RATINGS_def)
  have e: "map_of JAPANESE_RATINGS ''llama3.1'' = Some \<lparr>rating = [0x25B3], recommended = False\<rparr>"
    by (simp add: JAPANESE_RATINGS_def)
  show ?thesis
    using getJapaneseRating_longest_prefix [of "''llama3.1:8b''"]
      getJapaneseRating_longest_prefix [of "''deepseek-r1''"] a b c d e
    by auto
qed

section \<open>Properties of the provider adapters\<close>

lemma with_json_not_ok:
  "fetch pf rq = Fetched res \<Longrightarrow> \<not> res_ok res \<Longrightarrow>
   with_json pf rq k =
     (Inr (failure (''Request failed, status '' @ show_nat (status res))), [NetFetch rq])"
  by (simp add: with_json_def fetchWithTimeout_def)

lemma with_json_ok:
  "fetch pf rq = Fetched res \<Longrightarrow> res_ok res \<Longrightarrow> body res = Inr data \<Longrightarrow>
   with_json pf rq k = (fst (k data), NetFetch rq # ReadJson # snd (k data))"
  by (simp add: with_json_def fetchWithTimeout_def split: prod.splits)

lemma show_nat_401: "show_nat 401 = ''401''"
  by (simp add: digit_def)

lemma dispatch_unknown:
  "provider s \<notin> known_providers \<Longrightarrow>
   dispatch pf s key mdl req = (Inr (failure (''Unknown provider: '' @ provider s)), [])"
  by (simp add: dispatch_def known_providers_def)

text \<open>
  Claim C5. For a provider id outside the four known ones \<open>callAi\<close> has no effect at all,
  so the network is never called, and with a \<^verbatim>\<open>providers\<close> object present (as the type
  of the settings demands) it returns the failure that names the unknown provider.
\<close>
theorem callAi_unknown_provider:
  assumes "provider s \<notin> known_providers"
  shows "snd (callAi pf L s req) = []
         \<and> (providers s \<noteq> None \<longrightarrow>
              callAi pf L s req = (Inr (failure (''Unknown provider: '' @ provider s)), []))"
  using assms
  by (auto simp: callAi_def dispatch_unknown getApiKey_def getModel_def Let_def
      split: sum.splits option.splits)

lemma known_providerD:
  "provider s \<in> known_providers \<Longrightarrow>
   dispatch pf s key mdl req =
     (if provider s = ''gemini'' then callGemini pf key mdl req
      else if provider s = ''openai'' then callOpenAi pf key mdl req
      else if provider s = ''anthropic'' then callAnthropic pf key mdl req
      else callOllama pf (ollamaUrl s) mdl req)"
  by (auto simp: dispatch_def known_providers_def)

theorem callAi_unknown_provider_witness:
  "callAi dead_platform ''Ollama (Local)'' unknown_example hello_request
     = (Inr \<lparr>ok = False, r_text = None, r_error = Some ''Unknown provider: mistral''\<rparr>, [])"
proof -
  have "provider unknown_example \<notin> known_providers"
    by (simp add: unknown_example_def known_providers_def)
  moreover have "providers unknown_example \<noteq> None"
    by (simp add: unknown_example_def DEFAULT_AI_SETTINGS_def)
  ultimately show ?thesis
    using callAi_unknown_provider
      [of unknown_example dead_platform "''Ollama (Local)''" hello_request]
    by (simp add: failure_def unknown_example_def)
qed

text \<open>
  Claim C6. In each of the four adapters a response with a status outside 200 to 299
  gives the failure with the text \<^verbatim>\<open>Request failed, status N\<close>, and the only effect is
  the request itself: the body is not read. For the provider openai and the status 401
  \<open>callAi\<close> returns exactly that failure with the text for 401.
\<close>
theorem non_2xx_failure:
  "(fetch pf (gemini_request key mdl req) = Fetched res \<and> \<not> res_ok res \<longrightarrow>
      callGemini pf key mdl req =
        (Inr (failure (''Request failed, status '' @ show_nat (status res))),
         [NetFetch (gemini_request key mdl req)]))
   \<and> (fetch pf (openai_request key mdl req) = Fetched res \<and> \<not> res_ok res \<longrightarrow>
      callOpenAi pf key mdl req =
        (Inr (failure (''Request failed, status '' @ show_nat (status res))),
         [NetFetch (openai_request key mdl req)]))
   \<and> (fetch pf (anthropic_request key mdl req) = Fetched res \<and> \<not> res_ok res \<longrightarrow>
      callAnthropic pf key mdl req =
        (Inr (failure (''Request failed, status '' @ show_nat (status res))),
         [NetFetch (anthropic_request key mdl req)]))
   \<and> (fetch pf (ollama_request baseUrl mdl req) = Fetched res \<and> \<not> res_ok res \<longrightarrow>
      callOllama pf baseUrl mdl req =
        (Inr (failure (''Request failed, status '' @ show_nat (status res))),
         [NetFetch (ollama_request baseUrl mdl req)]))
   \<and> (provider s = ''openai'' \<and> getApiKey s = Inr key \<and> getModel L s = Inr mdl \<and>
       fetch pf (openai_request key mdl req) = Fetched res \<and> status res = 401 \<longrightarrow>
      callAi pf L s req =
        (Inr \<lparr>ok = False, r_text = None, r_error = Some ''Request failed, status 401''\<rparr>,
         [NetFetch (openai_request key mdl req)]))"
proof -
  have "callAi pf L s req =
        (Inr \<lparr>ok = False, r_text = None, r_error = Some ''Request failed, status 401''\<rparr>,
         [NetFetch (openai_request key mdl req)])"
    if "provider s = ''openai''" "getApiKey s = Inr key" "getModel L s = Inr mdl"
      "fetch pf (openai_request key mdl req) = Fetched res" "status res = 401"
  proof -
    have "\<not> res_ok res"
      using that(5) by (simp add: res_ok_def)
    then have "callOpenAi pf key mdl req =
        (Inr (failure (''Request failed, status '' @ show_nat 401)),
         [NetFetch (openai_request key mdl req)])"
      using that(4,5) by (simp add: callOpenAi_def with_json_not_ok)
    then show ?thesis
      using that(1,2,3) by (simp add: callAi_def dispatch_def digit_def failure_def)
  qed
  then show ?thesis
    by (simp add: callGemini_def callOpenAi_def callAnthropic_def callOllama_def
        with_json_not_ok)
qed

lemma gsub_nonempty:
  assumes "\<And>t r n. m t = Some (r, n) \<Longrightarrow> r \<noteq> []" and "s \<noteq> []"
  shows "gsub m s \<noteq> []"
proof (cases s)
  case Nil
  then show ?thesis using assms(2) by simp
next
  case (Cons c cs)
  show ?thesis
  proof (cases "m (c # cs)")
    case None
    then show ?thesis using Cons by simp
  next
    case (Some p)
    obtain r n where p: "p = (r, n)" by (cases p)
    then have "r \<noteq> []" using assms(1) Some by blast
    then show ?thesis using Cons Some p by simp
  qed
qed

lemma match_url_nonempty: "match_url s = Some (u, n) \<Longrightarrow> u \<noteq> []"
  by (auto simp: match_url_def Let_def prefix_def split: if_splits option.splits)

lemma strip_query_nonempty: "u \<noteq> [] \<Longrightarrow> strip_query u \<noteq> []"
  by (simp add: strip_query_def Let_def split: list.splits)

lemma redact_url_nonempty: "u \<noteq> [] \<Longrightarrow> redact_url P u \<noteq> []"
  by (simp add: redact_url_def strip_query_nonempty split: option.splits)

lemma redactError_nonempty:
  assumes "x \<noteq> []"
  shows "redactError P x k \<noteq> []"
proof -
  have l: "gsub (match_literal q) x \<noteq> []" for q
    using assms
    by (rule gsub_nonempty [rotated]) (auto simp: match_literal_def split: if_splits)
  have 1: "redact_key k x \<noteq> []"
    using assms l by (simp add: redact_key_def split: option.splits)
  have 2: "redact_params y \<noteq> []" if "y \<noteq> []" for y
    unfolding redact_params_def using that
    by (rule gsub_nonempty [rotated])
      (auto simp: match_param_def Let_def split: list.splits if_splits option.splits)
  have h: "gsub (match_header nm) y \<noteq> []" if "y \<noteq> []" for y nm
    using that
    by (rule gsub_nonempty [rotated])
      (auto simp: match_header_def split: option.splits)
  have a: "gsub match_authorization y \<noteq> []" if "y \<noteq> []" for y
    using that
    by (rule gsub_nonempty [rotated])
      (auto simp: match_authorization_def Let_def split: option.splits if_splits)
  have 3: "redact_headers y \<noteq> []" if "y \<noteq> []" for y
    unfolding redact_headers_def using that by (intro h a)
  have 4: "gsub (match_url_redact P) y \<noteq> []" if "y \<noteq> []" for y
    using that
    by (rule gsub_nonempty [rotated])
      (auto simp: match_url_redact_def redact_url_nonempty dest!: match_url_nonempty
        split: option.splits)
  show ?thesis
    unfolding redactError_def by (intro 4 3 2 1)
qed

lemma gemini_flagged_message: "gemini_flagged rs = Inl e \<Longrightarrow> message e \<noteq> []"
  by (induction rs arbitrary: e) (auto simp: Let_def split: if_splits sum.splits)

lemma gemini_debug_message: "gemini_debug data = (Inl e, w) \<Longrightarrow> message e \<noteq> []"
  by (auto simp: gemini_debug_def Let_def dest: gemini_flagged_message
      split: if_splits option.splits json.splits sum.splits)

lemma gemini_detail_nonempty: "gemini_detail pf data \<noteq> []"
  by (simp add: gemini_detail_def Let_def)

lemma text_or_empty: "\<not> truthy t \<Longrightarrow> text_or t msg = (Inr (failure msg), [])"
  by (simp add: text_or_def)

lemma is_failure_failure: "msg \<noteq> [] \<Longrightarrow> is_failure (Inr (failure msg), tr)"
  by (simp add: is_failure_def failure_def)

lemma gemini_read_empty:
  assumes "\<not> truthy (gemini_text data)"
  shows "(\<exists>e w. gemini_read pf data = (Inl e, w) \<and> message e \<noteq> []
            \<and> (\<forall>w'. gemini_debug data \<noteq> (Inr (), w')))
         \<or> (\<exists>w. gemini_read pf data = (Inr (failure (gemini_detail pf data)), w)
            \<and> gemini_debug data = (Inr (), w))"
proof (cases "gemini_debug data")
  case (Pair a w)
  show ?thesis
  proof (cases a)
    case (Inl e)
    then show ?thesis
      using Pair gemini_debug_message [of data e w] by (simp add: gemini_read_def)
  next
    case (Inr u)
    then show ?thesis
      using Pair assms by (simp add: gemini_read_def gemini_result_def Let_def)
  qed
qed

lemma callAi_known:
  "getApiKey s = Inr key \<Longrightarrow> getModel L s = Inr mdl \<Longrightarrow>
   callAi pf L s req =
     (case dispatch pf s key mdl req of
        (Inl e, tr) \<Rightarrow> (Inr (failure (redactError (parseUrl pf) (message e) (Some key))), tr)
      | (Inr r, tr) \<Rightarrow> (Inr r, tr))"
  by (simp add: callAi_def)

lemma callAi_of_failure:
  assumes "getApiKey s = Inr key" "getModel L s = Inr mdl"
    and "is_failure (dispatch pf s key mdl req)"
  shows "is_failure (callAi pf L s req)"
  using assms(3) unfolding callAi_known [OF assms(1,2)]
  by (cases "dispatch pf s key mdl req") (auto simp: is_failure_def split: sum.splits)

lemma callAi_of_throw:
  assumes "getApiKey s = Inr key" "getModel L s = Inr mdl"
    and "dispatch pf s key mdl req = (Inl e, w)" "message e \<noteq> []"
  shows "is_failure (callAi pf L s req)"
  unfolding callAi_known [OF assms(1,2)] using assms(3,4)
  by (simp add: is_failure_failure redactError_nonempty)

text \<open>
  Claim C2, as it holds of the code. For each of the four providers: when the response
  to the adapter's request has a status from 200 to 299, its body parses, and the content
  field read by that adapter is falsy (missing, \<^verbatim>\<open>null\<close>, the empty string, zero or
  \<^verbatim>\<open>false\<close>), then \<open>callAi\<close> returns \<^verbatim>\<open>{ok: false}\<close> with a non-empty error text,
  never \<^verbatim>\<open>{ok: true}\<close>. The OpenAI, Anthropic and Ollama adapters return that failure
  themselves, and so does the Gemini adapter whenever its logging block runs to its end.
  Where that block throws on a malformed \<^verbatim>\<open>safetyRatings\<close> value the adapter returns
  nothing; the error is caught by \<open>callAi\<close> and becomes the failure.
\<close>
theorem empty_content_is_failure:
  assumes "provider s \<in> known_providers"
    and "getApiKey s = Inr key" and "getModel L s = Inr mdl"
    and "fetch pf (provider_request s key mdl req) = Fetched res"
    and "res_ok res" and "body res = Inr data"
    and "\<not> truthy (provider_text s data)"
  shows "is_failure (callAi pf L s req)
         \<and> ((provider s = ''gemini'' \<longrightarrow> (\<exists>w. gemini_debug data = (Inr (), w)))
              \<longrightarrow> is_failure (dispatch pf s key mdl req))"
proof (cases "provider s = ''gemini''")
  case True
  have d: "dispatch pf s key mdl req
           = (fst (gemini_read pf data),
              NetFetch (gemini_request key mdl req) # ReadJson # snd (gemini_read pf data))"
    using True assms(4,5,6)
    by (simp add: dispatch_def callGemini_def provider_request_def with_json_ok)
  have t: "\<not> truthy (gemini_text data)"
    using True assms(7) by (simp add: provider_text_def)
  from gemini_read_empty [OF t, of pf] show ?thesis
  proof (elim disjE exE conjE)
    fix e w
    assume r: "gemini_read pf data = (Inl e, w)" and m: "message e \<noteq> []"
      and n: "\<forall>w'. gemini_debug data \<noteq> (Inr (), w')"
    have "is_failure (callAi pf L s req)"
      using callAi_of_throw [OF assms(2,3) _ m] d r by simp
    then show ?thesis using n True by simp
  next
    fix w
    assume r: "gemini_read pf data = (Inr (failure (gemini_detail pf data)), w)"
    have f: "is_failure (dispatch pf s key mdl req)"
      using d r by (simp add: is_failure_failure gemini_detail_nonempty)
    then show ?thesis
      using callAi_of_failure [OF assms(2,3)] by simp
  qed
next
  case False
  have f: "is_failure (dispatch pf s key mdl req)"
    using False assms(1,4,5,6,7)
    by (auto simp: known_providers_def dispatch_def provider_request_def provider_text_def
        callOpenAi_def callAnthropic_def callOllama_def with_json_ok text_or_empty
        is_failure_failure)
  then show ?thesis
    using callAi_of_failure [OF assms(2,3)] by simp
qed

lemma openai_example_key: "getApiKey openai_example = Inr ''sk-test-1''"
  by (simp add: openai_example_def DEFAULT_AI_SETTINGS_def getApiKey_def)

lemma openai_example_model: "getModel L openai_example = Inr ''gpt-4o-mini''"
  by (simp add: openai_example_def DEFAULT_AI_SETTINGS_def getModel_def PROVIDERS_def)

lemma gemini_example_key: "getApiKey gemini_example = Inr ''AIza-test''"
  by (simp add: gemini_example_def DEFAULT_AI_SETTINGS_def getApiKey_def)

lemma gemini_example_model: "getModel L gemini_example = Inr ''gemini-2.5-flash''"
  by (simp add: gemini_example_def DEFAULT_AI_SETTINGS_def getModel_def PROVIDERS_def)

theorem non_2xx_failure_witness:
  "callAi (canned_platform \<lparr>status = 401, body = Inl (SyntaxError ''Unexpected token'')\<rparr>)
      ''Ollama (Local)'' openai_example hello_request
     = (Inr \<lparr>ok = False, r_text = None, r_error = Some ''Request failed, status 401''\<rparr>,
        [NetFetch (openai_request ''sk-test-1'' ''gpt-4o-mini'' hello_request)])"
  using non_2xx_failure
    [of "canned_platform \<lparr>status = 401, body = Inl (SyntaxError ''Unexpected token'')\<rparr>"
        "''sk-test-1''" "''gpt-4o-mini''" hello_request
        "\<lparr>status = 401, body = Inl (SyntaxError ''Unexpected token'')\<rparr>"
        "''http://localhost:11434''" openai_example "''Ollama (Local)''"]
    openai_example_key openai_example_model
  by (simp add: canned_platform_def openai_example_def)

theorem empty_content_is_failure_witness:
  "is_failure (callAi (canned_platform \<lparr>status = 200, body = Inr (JObj [(''choices'', JArr [])])\<rparr>)
      ''Ollama (Local)'' openai_example hello_request)
   \<and> is_failure (dispatch (canned_platform \<lparr>status = 200, body = Inr (JObj [(''choices'', JArr [])])\<rparr>)
      openai_example ''sk-test-1'' ''gpt-4o-mini'' hello_request)
   \<and> is_failure (callAi (canned_platform \<lparr>status = 200, body = Inr bad_ratings_body\<rparr>)
      ''Ollama (Local)'' gemini_example hello_request)"
proof -
  let ?r1 = "\<lparr>status = 200, body = Inr (JObj [(''choices'', JArr [])])\<rparr>"
  let ?r2 = "\<lparr>status = 200, body = Inr bad_ratings_body\<rparr>"
  have p1: "provider openai_example \<in> known_providers" "provider openai_example \<noteq> ''gemini''"
    by (simp_all add: openai_example_def known_providers_def)
  have p2: "provider gemini_example \<in> known_providers"
    by (simp add: gemini_example_def known_providers_def)
  have t1: "\<not> truthy (provider_text openai_example (JObj [(''choices'', JArr [])]))"
    by (simp add: provider_text_def openai_example_def openai_text_def opt_prop_def opt_first_def)
  have t2: "\<not> truthy (provider_text gemini_example bad_ratings_body)"
    by (simp add: provider_text_def gemini_example_def gemini_text_def gemini_candidate_def
        opt_prop_def opt_first_def bad_ratings_body_def)
  have a: "is_failure (callAi (canned_platform ?r1) ''Ollama (Local)'' openai_example hello_request)
      \<and> is_failure (dispatch (canned_platform ?r1) openai_example ''sk-test-1'' ''gpt-4o-mini''
            hello_request)"
    using empty_content_is_failure [OF p1(1) openai_example_key openai_example_model,
        of "canned_platform ?r1" hello_request ?r1 "JObj [(''choices'', JArr [])]"] t1 p1(2)
    by (simp add: canned_platform_def res_ok_def)
  have b: "is_failure (callAi (canned_platform ?r2) ''Ollama (Local)'' gemini_example hello_request)"
    using empty_content_is_failure [OF p2 gemini_example_key gemini_example_model,
        of "canned_platform ?r2" hello_request ?r2 bad_ratings_body] t2
    by (simp add: canned_platform_def res_ok_def)
  show ?thesis using a b by simp
qed

text \<open>
  Claim C2, the input at which the claim as stated of the adapter fails. The response is
  2xx and carries no text, but its \<^verbatim>\<open>promptFeedback.safetyRatings\<close> is a truthy value
  that is not an array: the logging block of \<^verbatim>\<open>callGemini\<close> calls \<^verbatim>\<open>.filter\<close> on it
  before the content check is reached, and the adapter throws instead of returning
  \<^verbatim>\<open>{ok: false}\<close>.
\<close>
theorem callGemini_bad_ratings_throws:
  "res_ok \<lparr>status = 200, body = Inr bad_ratings_body\<rparr>
   \<and> \<not> truthy (gemini_text bad_ratings_body)
   \<and> fst (callGemini (canned_platform \<lparr>status = 200, body = Inr bad_ratings_body\<rparr>)
            ''AIza-test'' ''gemini-2.5-flash'' hello_request)
       = Inl (TypeError ''safetyRatings.filter is not a function'')"
  by (simp add: callGemini_def with_json_def
      fetchWithTimeout_def canned_platform_def res_ok_def gemini_read_def gemini_debug_def
      gemini_finishReason_def gemini_blockReason_def gemini_safetyRatings_def gemini_text_def
      gemini_candidate_def opt_prop_def opt_first_def or_else_def bad_ratings_body_def)


section \<open>Properties of the redaction\<close>


lemma lower_amp [simp]: "lower CHR ''&'' = CHR ''&''"
  by (simp add: lower_def)

lemma lower_eq_amp [simp]: "lower c = CHR ''&'' \<longleftrightarrow> c = CHR ''&''"
  by (auto simp: lower_def split: option.splits dest!: map_of_SomeD)











lemma lower_equals [simp]: "lower CHR ''='' = CHR ''=''"
  by (simp add: lower_def)

lemma lower_idem [simp]: "lower (lower c) = lower c"
  by (auto simp: lower_def split: option.splits dest!: map_of_SomeD)
































lemma lower_question [simp]: "lower CHR ''?'' = CHR ''?''"
  by (simp add: lower_def)












end
